theory Spec2Isabelle
  imports Complex_Main "HOL-Library.Multiset"
begin

section \<open>Python exceptions\<close>

text \<open>
  The exceptions that the modelled part of \<^verbatim>\<open>src/trainers/trainer.py\<close> can raise.
  A function that may raise returns \<open>py_error + 'a\<close>, with \<open>Inl\<close> for the exception.
\<close>

datatype py_error = TypeError | AttributeError | ZeroDivisionError | AssertionError

section \<open>Float arithmetic\<close>

text \<open>
  A Python \<^verbatim>\<open>float\<close> is modelled by the real number it denotes. Every float operation
  of the source is the exact operation on reals followed by a rounding \<open>fl\<close>, which the
  model takes as a parameter:
  \<^item> \<open>exact\<close> rounds nothing: arithmetic on the reals;
  \<^item> \<open>binary64\<close> rounds to the nearest IEEE 754 double, ties to even, as CPython's
    float does (normal and subnormal range; overflow to infinity and NaN are not modelled).
  \<^verbatim>\<open>math.pi\<close> is \<open>fl pi\<close> and \<^verbatim>\<open>math.cos x\<close> is \<open>fl (cos x)\<close>.
\<close>

type_synonym rounding = "real \<Rightarrow> real"

definition exact :: rounding where
  "exact x = x"

text \<open>
  The binary exponent \<open>e\<close> of a positive real \<open>a\<close>, \<open>2 ^ e \<le> a < 2 ^ (e + 1)\<close>, clamped to
  the exponent range of a double: at least \<open>-1022\<close> (below, subnormal) and at most \<open>1023\<close>.
\<close>

fun binexp_up :: "nat \<Rightarrow> real \<Rightarrow> int" where
  "binexp_up 0 a = 0"
| "binexp_up (Suc n) a = (if a < 2 then 0 else binexp_up n (a / 2) + 1)"

fun binexp_down :: "nat \<Rightarrow> real \<Rightarrow> int" where
  "binexp_down 0 a = 0"
| "binexp_down (Suc n) a = (if 1 \<le> a then 0 else binexp_down n (a * 2) - 1)"

definition binexp :: "real \<Rightarrow> int" where
  "binexp a = (if 1 \<le> a then binexp_up 1023 a else binexp_down 1022 a)"

definition round_half_even :: "real \<Rightarrow> int" where
  "round_half_even x =
     (let f = \<lfloor>x\<rfloor>; r = x - of_int f
      in if r < 1 / 2 then f else if 1 / 2 < r then f + 1 else if even f then f else f + 1)"

definition binary64 :: rounding where
  "binary64 x =
     (let ulp = 2 powi (binexp \<bar>x\<bar> - 52)
      in of_int (round_half_even (x / ulp)) * ulp)"

definition mpi :: "rounding \<Rightarrow> real" where
  "mpi fl = fl pi"

definition mcos :: "rounding \<Rightarrow> real \<Rightarrow> real" where
  "mcos fl x = fl (cos x)"

section \<open>The trainer\<close>

text \<open>
  A parameter tensor, as far as \<^verbatim>\<open>_get_optimizer\<close> reads it: \<^verbatim>\<open>p.requires_grad\<close> and the
  shape, from which \<^verbatim>\<open>p.dim()\<close> (the rank) and \<^verbatim>\<open>p.numel()\<close> follow.
\<close>

record tensor =
  requires_grad :: bool
  shape :: "nat list"

definition tensor_dim :: "tensor \<Rightarrow> nat" where
  "tensor_dim p = length (shape p)"

definition tensor_numel :: "tensor \<Rightarrow> nat" where
  "tensor_numel p = prod_list (shape p)"

text \<open>
  The attributes of a \<^verbatim>\<open>Trainer\<close> that the modelled methods read, as \<^verbatim>\<open>__init__\<close>,
  \<^verbatim>\<open>_setup_device\<close> and \<^verbatim>\<open>_setup_ddp\<close> set them. \<open>raw_model\<close> is what
  \<^verbatim>\<open>raw_model.named_parameters()\<close> yields, or \<open>None\<close> (the constructor's default).
\<close>

record trainer =
  raw_model :: "(string \<times> tensor) list option"
  n_epochs :: int
  warmup_iters :: int
  max_iters :: int
  grad_accum_iters :: int
  max_lr :: real
  min_lr :: real
  use_ddp :: bool
  monitor :: bool
  main_process :: bool
  device_type :: string

subsection \<open>The learning-rate schedule: \<^verbatim>\<open>Trainer._get_lr\<close>\<close>

text \<open>
  \<^verbatim>\<open>decay_ratio = (iter - self.warmup_iters) / (self.max_iters - self.warmup_iters)\<close>:
  a true division of two ints, correctly rounded to a float.
\<close>

definition decay_ratio :: "rounding \<Rightarrow> trainer \<Rightarrow> int \<Rightarrow> real" where
  "decay_ratio fl T iter =
     fl (of_int (iter - warmup_iters T) / of_int (max_iters T - warmup_iters T))"

text \<open>
  The method is named \<^verbatim>\<open>_get_lr\<close> in the source; an Isabelle name cannot start with an
  underscore, so a leading underscore is written \<open>p_\<close> (private) throughout.
  \<^verbatim>\<open>float * int\<close> and \<^verbatim>\<open>float / int\<close> convert the int to a float first; a division
  raises \<^verbatim>\<open>ZeroDivisionError\<close> when the divisor is zero.
\<close>

definition p_get_lr :: "rounding \<Rightarrow> trainer \<Rightarrow> int \<Rightarrow> py_error + real" where
  "p_get_lr fl T iter =
     (if iter < warmup_iters T then
        (if fl (of_int (warmup_iters T)) = 0 then Inl ZeroDivisionError
         else Inr (fl (fl (max_lr T * fl (of_int (iter + 1))) / fl (of_int (warmup_iters T)))))
      else if iter > max_iters T then Inr (min_lr T)
      else if max_iters T - warmup_iters T = 0 then Inl ZeroDivisionError
      else if \<not> (0 \<le> decay_ratio fl T iter \<and> decay_ratio fl T iter \<le> 1) then Inl AssertionError
      else
        (let coeff = fl (fl (1 / 2) * fl (fl 1 + mcos fl (fl (mpi fl * decay_ratio fl T iter))))
         in Inr (fl (min_lr T + fl (coeff * fl (max_lr T - min_lr T))))))"

subsection \<open>The optimizer: \<^verbatim>\<open>Trainer._get_optimizer\<close>\<close>

text \<open>
  A parameter group of the optimizer (a dict with the keys \<^verbatim>\<open>'params'\<close>,
  \<^verbatim>\<open>'weight_decay'\<close> and \<^verbatim>\<open>'lr'\<close>) and the optimizer that
  \<^verbatim>\<open>torch.optim.AdamW\<close> builds from the groups: a group that gives no \<^verbatim>\<open>'lr'\<close> gets
  the constructor's \<^verbatim>\<open>lr\<close>.
\<close>

record param_group =
  params :: "tensor list"
  weight_decay :: real
  lr :: real

record optimizer =
  param_groups :: "param_group list"
  betas :: "real \<times> real"
  eps :: real
  fused :: bool

text \<open>
  A Python dict, in insertion order: \<^verbatim>\<open>d[k] = v\<close> replaces the value of a key that is
  present and appends a new key. \<open>dict_of\<close> is the comprehension
  \<^verbatim>\<open>{pn: p for pn, p in items}\<close>.
\<close>

fun dict_setitem :: "('k \<times> 'v) list \<Rightarrow> 'k \<Rightarrow> 'v \<Rightarrow> ('k \<times> 'v) list" where
  "dict_setitem [] k v = [(k, v)]"
| "dict_setitem ((k', v') # d) k v =
     (if k' = k then (k', v) # d else (k', v') # dict_setitem d k v)"

definition dict_of :: "('k \<times> 'v) list \<Rightarrow> ('k \<times> 'v) list" where
  "dict_of items = foldl (\<lambda>d (k, v). dict_setitem d k v) [] items"

text \<open>
  \<^verbatim>\<open>_get_optimizer(weight_decay, learning_rate)\<close>. With \<^verbatim>\<open>raw_model = None\<close> the call
  \<^verbatim>\<open>self.raw_model.named_parameters()\<close> raises \<^verbatim>\<open>AttributeError\<close>. \<open>fused_available\<close>
  is \<^verbatim>\<open>'fused' in inspect.signature(torch.optim.AdamW).parameters\<close>, a fact of the installed
  torch. \<^verbatim>\<open>torch.optim.AdamW\<close> is an external collaborator: the model takes the call to
  succeed and to return the two groups as given; what torch itself rejects (a negative
  \<^verbatim>\<open>lr\<close>, the keyword \<^verbatim>\<open>fused\<close> on a torch that lacks it) is outside the model. The
  \<^verbatim>\<open>print\<close> calls on the main process (group sizes and element counts, the fused flag)
  write to the console only and are left out.
\<close>

definition p_get_optimizer ::
  "rounding \<Rightarrow> bool \<Rightarrow> trainer \<Rightarrow> real \<Rightarrow> real \<Rightarrow> py_error + optimizer" where
  "p_get_optimizer fl fused_available T wd learning_rate =
     (case raw_model T of
        None \<Rightarrow> Inl AttributeError
      | Some named_parameters \<Rightarrow>
          (let param_dict = dict_of named_parameters;
               param_dict = filter (\<lambda>(pn, p). requires_grad p) param_dict;
               decay_params = map snd (filter (\<lambda>(n, p). tensor_dim p \<ge> 2) param_dict);
               nodecay_params = map snd (filter (\<lambda>(n, p). tensor_dim p < 2) param_dict);
               optim_groups = [(decay_params, wd), (nodecay_params, 0)];
               use_fused = (fused_available \<and> device_type T = ''cuda'')
           in Inr \<lparr>param_groups =
                      map (\<lambda>(ps, w). \<lparr>params = ps, weight_decay = w, lr = learning_rate\<rparr>)
                        optim_groups,
                    betas = (fl (9 / 10), fl (95 / 100)),
                    eps = fl (1 / 10 ^ 8),
                    fused = use_fused\<rparr>))"

subsection \<open>Setting the learning rate: \<^verbatim>\<open>Trainer.adjust_optimizer_lr\<close>\<close>

text \<open>
  Every name that \<^verbatim>\<open>self.<name>\<close> resolves on a \<^verbatim>\<open>Trainer\<close>: the methods of the class
  and the attributes its constructor sets. Any other name raises \<^verbatim>\<open>AttributeError\<close>.
\<close>

definition trainer_members :: "string list" where
  "trainer_members =
     [''__init__'', ''_setup_device'', ''_setup_ddp'', ''train'', ''adjust_optimizer_lr'',
      ''_on_epoch_begin'', ''validate'', ''evaluate'', ''_get_lr'', ''_get_optimizer'',
      ''model'', ''raw_model'', ''n_epochs'', ''train_loader'', ''val_loader'',
      ''warmup_iters'', ''max_iters'', ''grad_accum_iters'', ''max_lr'', ''min_lr'',
      ''use_ddp'', ''monitor'', ''log_dir'', ''log_file'', ''device'', ''device_type'',
      ''ddp_rank'', ''ddp_local_rank'', ''ddp_world_size'', ''main_process'']"

text \<open>
  \<^verbatim>\<open>self.<name>(iter)\<close>, a call that is to return a learning rate. Only \<^verbatim>\<open>_get_lr\<close> is a
  method of one int argument; the source calls no other member this way, and such a call
  stands as a \<^verbatim>\<open>TypeError\<close>.
\<close>

definition self_call :: "string \<Rightarrow> rounding \<Rightarrow> trainer \<Rightarrow> int \<Rightarrow> py_error + real" where
  "self_call name fl T iter =
     (if name \<notin> set trainer_members then Inl AttributeError
      else if name = ''_get_lr'' then p_get_lr fl T iter
      else Inl TypeError)"

text \<open>
  \<^verbatim>\<open>lr = self.get_lr(iter)\<close>, then \<^verbatim>\<open>param_group['lr'] = lr\<close> for every group. Returns the
  optimizer as mutated and \<^verbatim>\<open>lr\<close>.
\<close>

definition adjust_optimizer_lr ::
  "rounding \<Rightarrow> trainer \<Rightarrow> optimizer \<Rightarrow> int \<Rightarrow> py_error + optimizer \<times> real" where
  "adjust_optimizer_lr fl T optimizer iter =
     (case self_call ''get_lr'' fl T iter of
        Inl err \<Rightarrow> Inl err
      | Inr new_lr \<Rightarrow>
          Inr (optimizer\<lparr>param_groups := map (\<lambda>g. g\<lparr>lr := new_lr\<rparr>) (param_groups optimizer)\<rparr>,
               new_lr))"

subsection \<open>The training loop: \<^verbatim>\<open>Trainer.train\<close>\<close>

text \<open>
  The collaborators of the loop are opaque; the model keeps what they do as a trace of
  events. The environment \<open>env\<close> fixes what the run cannot decide: the loss that the
  \<open>k\<close>-th forward pass of the run produces, the value a scalar has after the cross-worker
  averaging \<^verbatim>\<open>dist.all_reduce(..., op=AVG)\<close>, and whether torch offers a fused AdamW.
\<close>

datatype event =
    Reset
  | TrainMode
  | ZeroGrad
  | NextBatch
  | SetGradSync bool
  | Backward real
  | AllReduceAvg
  | ClipGradNorm
  | OptimizerStep "real list"
  | Validate
  | Evaluate
  | CudaSynchronize
  | LogLine int int real

record env =
  fused_available :: bool
  loss_at :: "nat \<Rightarrow> real"
  all_reduce_avg :: "real \<Rightarrow> real"

text \<open>
  The state of a run of \<^verbatim>\<open>train\<close>: the number of forward passes so far, the locals
  \<^verbatim>\<open>accumulated_loss\<close> and \<^verbatim>\<open>optimizer\<close>, and the trace. \<open>TrainMode\<close> is
  \<^verbatim>\<open>self.model.train()\<close>, \<open>SetGradSync b\<close> is the assignment
  \<^verbatim>\<open>self.model.require_backward_grad_sync = b\<close>, \<open>Backward l\<close> is \<^verbatim>\<open>loss.backward()\<close> on a
  loss of value \<open>l\<close>, \<open>OptimizerStep lrs\<close> is \<^verbatim>\<open>optimizer.step()\<close> with the groups' rates.
\<close>

record state =
  n_forward :: nat
  accumulated_loss :: real
  optim :: optimizer
  events :: "event list"

definition emit :: "event \<Rightarrow> state \<Rightarrow> state" where
  "emit ev s = s\<lparr>events := events s @ [ev]\<rparr>"

text \<open>\<^verbatim>\<open>range(n)\<close> for an int \<open>n\<close>: \<open>0, ..., n - 1\<close>, empty when \<open>n \<le> 0\<close>.\<close>

definition py_range :: "int \<Rightarrow> int list" where
  "py_range n = map int [0..<nat n]"

text \<open>
  \<^verbatim>\<open>iter(n)\<close> for an int \<open>n\<close>, which a \<^verbatim>\<open>for\<close> statement calls on its iterable: an int
  has no \<^verbatim>\<open>__iter__\<close> and no \<^verbatim>\<open>__getitem__\<close>, so the call raises
  \<^verbatim>\<open>TypeError: 'int' object is not iterable\<close>.
\<close>

definition iter_int :: "int \<Rightarrow> py_error + int list" where
  "iter_int n = Inl TypeError"

text \<open>
  The body of \<^verbatim>\<open>for micro_iter in range(self.grad_accum_iters)\<close> (lines 138 to 149): draw a
  batch, set the synchronisation flag under DDP, compute the loss, divide it by
  \<^verbatim>\<open>grad_accum_iters\<close>, add it to \<^verbatim>\<open>accumulated_loss\<close>, backpropagate it. Here \<open>fl\<close> is the
  rounding of the loss tensor's dtype.
\<close>

definition micro_step :: "rounding \<Rightarrow> env \<Rightarrow> trainer \<Rightarrow> state \<Rightarrow> int \<Rightarrow> state" where
  "micro_step fl E T s micro_iter =
     (let s1 = emit NextBatch s;
          s2 = (if use_ddp T
                then emit (SetGradSync (micro_iter = grad_accum_iters T - 1)) s1 else s1);
          loss = loss_at E (n_forward s2);
          s3 = s2\<lparr>n_forward := n_forward s2 + 1\<rparr>;
          loss = fl (loss / of_int (grad_accum_iters T));
          s4 = s3\<lparr>accumulated_loss := fl (accumulated_loss s3 + loss)\<rparr>
      in emit (Backward loss) s4)"

definition micro_loop :: "rounding \<Rightarrow> env \<Rightarrow> trainer \<Rightarrow> state \<Rightarrow> int list \<Rightarrow> state" where
  "micro_loop fl E T s micro_iters = foldl (micro_step fl E T) s micro_iters"

text \<open>
  The accumulation phase of one iteration (lines 133 to 149): \<^verbatim>\<open>self.model.train()\<close>,
  \<^verbatim>\<open>optimizer.zero_grad()\<close>, \<^verbatim>\<open>accumulated_loss = 0.0\<close>, then the micro-batch loop.
\<close>

definition accumulation :: "rounding \<Rightarrow> env \<Rightarrow> trainer \<Rightarrow> state \<Rightarrow> state" where
  "accumulation fl E T s =
     micro_loop fl E T ((emit ZeroGrad (emit TrainMode s))\<lparr>accumulated_loss := 0\<rparr>)
       (py_range (grad_accum_iters T))"

text \<open>
  The body of \<^verbatim>\<open>for iter in range(self.max_iters)\<close> (lines 131 to 179), in epoch \<open>e\<close>. The
  wall-clock timing, the throughput it yields and the status line printed under
  \<^verbatim>\<open>monitor\<close> are not modelled; the line that the main process appends to the log file is
  kept as \<open>LogLine e iter loss\<close>.
\<close>

definition train_iteration ::
  "rounding \<Rightarrow> env \<Rightarrow> trainer \<Rightarrow> int \<Rightarrow> state \<Rightarrow> int \<Rightarrow> py_error + state" where
  "train_iteration fl E T e s iter =
     (let s1 = accumulation fl E T s;
          s2 = (if use_ddp T
                then (emit AllReduceAvg s1)\<lparr>accumulated_loss :=
                        all_reduce_avg E (accumulated_loss s1)\<rparr>
                else s1);
          s3 = emit ClipGradNorm s2
      in case adjust_optimizer_lr fl T (optim s3) iter of
           Inl err \<Rightarrow> Inl err
         | Inr (optimizer, new_lr) \<Rightarrow>
             (let s4 = emit (OptimizerStep (map lr (param_groups optimizer)))
                         (s3\<lparr>optim := optimizer\<rparr>);
                  is_last_step = (iter = max_iters T - 1);
                  s5 = (if iter mod 500 = 0 \<or> is_last_step
                        then emit Evaluate (emit Validate s4) else s4);
                  s6 = (if device_type T = ''cuda'' then emit CudaSynchronize s5 else s5)
              in Inr (if main_process T
                      then emit (LogLine e iter (accumulated_loss s6)) s6 else s6)))"

fun iteration_loop ::
  "rounding \<Rightarrow> env \<Rightarrow> trainer \<Rightarrow> int \<Rightarrow> state \<Rightarrow> int list \<Rightarrow> py_error + state" where
  "iteration_loop fl E T e s [] = Inr s"
| "iteration_loop fl E T e s (iter # iters) =
     (case train_iteration fl E T e s iter of
        Inl err \<Rightarrow> Inl err
      | Inr s' \<Rightarrow> iteration_loop fl E T e s' iters)"

text \<open>\<^verbatim>\<open>_on_epoch_begin\<close>: \<^verbatim>\<open>self.train_loader.reset()\<close>.\<close>

definition p_on_epoch_begin :: "state \<Rightarrow> state" where
  "p_on_epoch_begin s = emit Reset s"

fun epoch_loop :: "rounding \<Rightarrow> env \<Rightarrow> trainer \<Rightarrow> state \<Rightarrow> int list \<Rightarrow> py_error + state" where
  "epoch_loop fl E T s [] = Inr s"
| "epoch_loop fl E T s (e # es) =
     (case iteration_loop fl E T e (p_on_epoch_begin s) (py_range (max_iters T)) of
        Inl err \<Rightarrow> Inl err
      | Inr s' \<Rightarrow> epoch_loop fl E T s' es)"

text \<open>
  \<^verbatim>\<open>train\<close>: build the optimizer with \<^verbatim>\<open>weight_decay=0.1\<close> and \<^verbatim>\<open>learning_rate=6e-4\<close>, then
  \<^verbatim>\<open>for e in self.n_epochs\<close>, which iterates the int \<^verbatim>\<open>n_epochs\<close> itself (there is no
  \<^verbatim>\<open>range\<close>). \<^verbatim>\<open>accumulated_loss\<close> is unbound until line 135 binds it; the model starts
  it at \<open>0\<close>.
\<close>

definition train :: "rounding \<Rightarrow> env \<Rightarrow> trainer \<Rightarrow> py_error + state" where
  "train fl E T =
     (case p_get_optimizer fl (fused_available E) T (fl (1 / 10)) (fl (6 / 10 ^ 4)) of
        Inl err \<Rightarrow> Inl err
      | Inr optimizer \<Rightarrow>
          (case iter_int (n_epochs T) of
             Inl err \<Rightarrow> Inl err
           | Inr es \<Rightarrow>
               epoch_loop fl E T
                 \<lparr>n_forward = 0, accumulated_loss = 0, optim = optimizer, events = []\<rparr> es))"

subsection \<open>Reading the trace\<close>

text \<open>
  The values that the assignments \<^verbatim>\<open>self.model.require_backward_grad_sync = b\<close> of a trace
  write, and the losses that its \<^verbatim>\<open>loss.backward()\<close> calls backpropagate, in order.
\<close>

fun sync_writes :: "event list \<Rightarrow> bool list" where
  "sync_writes [] = []"
| "sync_writes (SetGradSync b # evs) = b # sync_writes evs"
| "sync_writes (ev # evs) = sync_writes evs"


text \<open>
  The events of micro-step \<open>k\<close> of an iteration whose first forward pass is the \<open>n0\<close>-th of
  the run; \<open>micro_step_events\<close> below shows that \<open>micro_step\<close> appends exactly these.
\<close>

definition micro_events :: "rounding \<Rightarrow> env \<Rightarrow> trainer \<Rightarrow> nat \<Rightarrow> nat \<Rightarrow> event list" where
  "micro_events fl E T n0 k =
     NextBatch #
     (if use_ddp T then [SetGradSync (int k = grad_accum_iters T - 1)] else []) @
     [Backward (fl (loss_at E (n0 + k) / of_int (grad_accum_iters T)))]"

subsection \<open>Concrete configurations\<close>

text \<open>
  The trainer that the constructor's defaults give (\<^verbatim>\<open>warmup_iters=715\<close>,
  \<^verbatim>\<open>max_iters=19073\<close>, \<^verbatim>\<open>max_lr=6e-4\<close>, \<^verbatim>\<open>min_lr=6e-3\<close>, no \<^verbatim>\<open>raw_model\<close>), on a CPU and
  without DDP; a float literal denotes the float nearest to it. \<open>scenario\<close> is the
  configuration of the spec's end-to-end scenario.
\<close>

definition default_trainer :: "rounding \<Rightarrow> trainer" where
  "default_trainer fl =
     \<lparr>raw_model = None, n_epochs = 1, warmup_iters = 715, max_iters = 19073,
      grad_accum_iters = 1, max_lr = fl (6 / 10 ^ 4), min_lr = fl (6 / 10 ^ 3),
      use_ddp = False, monitor = True, main_process = True, device_type = ''cpu''\<rparr>"

definition scenario :: "rounding \<Rightarrow> trainer" where
  "scenario fl =
     (default_trainer fl)\<lparr>warmup_iters := 2, max_iters := 10,
                           max_lr := fl (1 / 10), min_lr := fl (1 / 100)\<rparr>"

text \<open>
  A small model (an embedding matrix, the two vectors of a layer norm, a frozen matrix), an
  environment whose \<open>k\<close>-th forward pass has the loss \<open>k + 1\<close>, and a state left by an earlier
  iteration whose accumulated loss was \<open>7\<close>.
\<close>

definition example_model :: "(string \<times> tensor) list" where
  "example_model =
     [(''wte.weight'', \<lparr>requires_grad = True, shape = [8, 4]\<rparr>),
      (''ln_f.weight'', \<lparr>requires_grad = True, shape = [4]\<rparr>),
      (''ln_f.bias'', \<lparr>requires_grad = True, shape = [4]\<rparr>),
      (''frozen.weight'', \<lparr>requires_grad = False, shape = [4, 4]\<rparr>)]"

definition example_env :: env where
  "example_env =
     \<lparr>fused_available = False, loss_at = (\<lambda>k. real k + 1), all_reduce_avg = (\<lambda>x. x)\<rparr>"

definition example_state :: state where
  "example_state =
     \<lparr>n_forward = 0, accumulated_loss = 7,
      optim = \<lparr>param_groups = [], betas = (0, 0), eps = 0, fused = False\<rparr>,
      events = []\<rparr>"

text \<open>
  The scenario with the small model as raw model, with four micro-batches per iteration, and
  with four micro-batches under DDP.
\<close>

definition model_trainer :: trainer where
  "model_trainer = (scenario exact)\<lparr>raw_model := Some example_model\<rparr>"


definition ddp_trainer :: trainer where
  "ddp_trainer = (scenario exact)\<lparr>use_ddp := True, grad_accum_iters := 4\<rparr>"

section \<open>Evaluating the rounding\<close>

lemma binexp_down_numeral:
  "binexp_down (numeral k) a =
     (if 1 \<le> a then 0 else binexp_down (pred_numeral k) (a * 2) - 1)"
  by (simp add: numeral_eq_Suc)

lemma binexp_up_numeral:
  "binexp_up (numeral k) a =
     (if a < 2 then 0 else binexp_up (pred_numeral k) (a / 2) + 1)"
  by (simp add: numeral_eq_Suc)

lemmas binary64_eval = binary64_def binexp_def binexp_down_numeral binexp_up_numeral
  round_half_even_def power_int_minus Let_def

lemma binary64_0: "binary64 0 = 0" by (simp add: binary64_eval)
lemma binary64_1: "binary64 1 = 1" by (simp add: binary64_eval)
lemma binary64_2: "binary64 2 = 2" by (simp add: binary64_eval)
lemma binary64_half: "binary64 (1 / 2) = 1 / 2" by (simp add: binary64_eval)

lemma default_max_lr: "binary64 (6 / 10 ^ 4) = 5534023222112865 / 9223372036854775808"
  by (simp add: binary64_eval)

lemma default_min_lr: "binary64 (6 / 10 ^ 3) = 3458764513820541 / 576460752303423488"
  by (simp add: binary64_eval)

lemma binary64_tenth: "binary64 (1 / 10) = 3602879701896397 / 36028797018963968"
  by (simp add: binary64_eval)

lemma binary64_hundredth: "binary64 (1 / 100) = 5764607523034235 / 576460752303423488"
  by (simp add: binary64_eval)

lemma binary64_twentieth: "binary64 (5 / 100) = 3602879701896397 / 72057594037927936"
  by (simp add: binary64_eval)

text \<open>
  Rounding to a double keeps a number of the unit interval in the unit interval: \<open>0\<close> and
  \<open>1\<close> are doubles, and the rounding moves to a neighbouring double.
\<close>

lemma round_half_even_floor:
  "round_half_even y = \<lfloor>y\<rfloor> \<or> round_half_even y = \<lfloor>y\<rfloor> + 1"
  by (simp add: round_half_even_def Let_def)

lemma round_half_even_nonneg: "0 \<le> y \<Longrightarrow> 0 \<le> round_half_even y"
  using round_half_even_floor [of y] by auto

lemma round_half_even_of_int: "round_half_even (of_int n) = n"
  by (simp add: round_half_even_def)

lemma round_half_even_le:
  assumes "y \<le> of_int n"
  shows "round_half_even y \<le> n"
proof (cases "y = of_int n")
  case True
  then show ?thesis by (simp add: round_half_even_of_int)
next
  case False
  with assms have "y < of_int n" by simp
  then have "\<lfloor>y\<rfloor> < n" by (simp add: floor_less_iff)
  then show ?thesis using round_half_even_floor [of y] by auto
qed

lemma binexp_down_nonpos: "binexp_down n a \<le> 0"
proof (induction n arbitrary: a)
  case 0
  show ?case by simp
next
  case (Suc n)
  show ?case using Suc [of "a * 2"] by simp
qed

lemma binexp_unit: "0 \<le> x \<Longrightarrow> x \<le> 1 \<Longrightarrow> binexp x \<le> 0"
  by (cases "x = 1") (auto simp: binexp_def binexp_up_numeral binexp_down_nonpos)

lemma binary64_unit_interval:
  assumes "0 \<le> x" and "x \<le> 1"
  shows "0 \<le> binary64 x \<and> binary64 x \<le> 1"
proof -
  define e where "e = binexp \<bar>x\<bar>"
  define u :: real where "u = 2 powi (e - 52)"
  define n :: int where "n = 2 ^ nat (52 - e)"
  have e: "e \<le> 0" using assms binexp_unit [of x] by (simp add: e_def)
  have u: "0 < u" by (simp add: u_def)
  have nu: "of_int n * u = 1"
  proof -
    have "of_int n = (2::real) powi (52 - e)"
      using e by (simp add: n_def power_int_def)
    moreover have "(2::real) powi (52 - e) * 2 powi (e - 52) = 2 powi ((52 - e) + (e - 52))"
      by (subst power_int_add) simp_all
    ultimately show ?thesis by (simp add: u_def)
  qed
  have b: "binary64 x = of_int (round_half_even (x / u)) * u"
    by (simp add: binary64_def u_def e_def Let_def)
  have "x / u \<le> of_int n"
  proof -
    have "x / u = x * of_int n" using nu u by (simp add: field_simps)
    also have "\<dots> \<le> 1 * of_int n"
      using assms by (intro mult_right_mono) (simp_all add: n_def)
    finally show ?thesis by simp
  qed
  then have "round_half_even (x / u) \<le> n" by (rule round_half_even_le)
  then have "of_int (round_half_even (x / u)) * u \<le> of_int n * u"
    using u by (simp add: mult_right_mono)
  moreover have "0 \<le> round_half_even (x / u)"
    using assms u by (intro round_half_even_nonneg) simp
  ultimately show ?thesis using b nu u by simp
qed

text \<open>
  The binary exponent is the one that brackets its argument, within the exponent range of a
  double. So a double keeps its exponent, or is a power of two at the next one, and rounding
  a double gives it back.
\<close>

lemma two_powi_Suc: "(2::real) powi (e + 1) = 2 * 2 powi e"
  by (subst power_int_add) simp_all

lemma two_powi_pred: "(2::real) powi (e - 1) = 2 powi e / 2"
  using two_powi_Suc [of "e - 1"] by simp

lemma binexp_up_bounds:
  "1 \<le> a \<Longrightarrow>
     0 \<le> binexp_up n a \<and> binexp_up n a \<le> int n \<and> 2 powi binexp_up n a \<le> a \<and>
     (binexp_up n a < int n \<longrightarrow> a < 2 powi (binexp_up n a + 1))"
proof (induction n arbitrary: a)
  case 0
  then show ?case by simp
next
  case (Suc n)
  show ?case
  proof (cases "a < 2")
    case True
    with Suc.prems show ?thesis by simp
  next
    case False
    define e where "e = binexp_up n (a / 2)"
    from False have "1 \<le> a / 2" by simp
    from Suc.IH [OF this]
    have e: "0 \<le> e" "e \<le> int n" "2 powi e \<le> a / 2" "e < int n \<longrightarrow> a / 2 < 2 powi (e + 1)"
      by (simp_all add: e_def)
    have r: "binexp_up (Suc n) a = e + 1" using False by (simp add: e_def)
    have p1: "(2::real) powi (e + 1) = 2 * 2 powi e" by (rule two_powi_Suc)
    have p2: "(2::real) powi (e + 1 + 1) = 2 * 2 powi (e + 1)" by (rule two_powi_Suc)
    have "2 powi (e + 1) \<le> a" using e(3) p1 by linarith
    moreover have "a < 2 powi (e + 1 + 1)" if "e + 1 < int (Suc n)"
    proof -
      from that e(4) have "a / 2 < 2 powi (e + 1)" by simp
      with p2 show ?thesis by linarith
    qed
    ultimately show ?thesis using e(1,2) unfolding r by simp
  qed
qed

lemma binexp_down_bounds:
  "0 \<le> a \<Longrightarrow> a < 2 \<Longrightarrow>
     - int n \<le> binexp_down n a \<and> binexp_down n a \<le> 0 \<and> a < 2 powi (binexp_down n a + 1) \<and>
     (- int n < binexp_down n a \<longrightarrow> 2 powi binexp_down n a \<le> a)"
proof (induction n arbitrary: a)
  case 0
  then show ?case by simp
next
  case (Suc n)
  show ?case
  proof (cases "1 \<le> a")
    case True
    with Suc.prems show ?thesis by simp
  next
    case False
    define e where "e = binexp_down n (a * 2)"
    from False Suc.prems have "0 \<le> a * 2" "a * 2 < 2" by simp_all
    from Suc.IH [OF this]
    have e: "- int n \<le> e" "e \<le> 0" "a * 2 < 2 powi (e + 1)"
      "- int n < e \<longrightarrow> 2 powi e \<le> a * 2"
      by (simp_all add: e_def)
    have r: "binexp_down (Suc n) a = e - 1" using False by (simp add: e_def)
    have p1: "(2::real) powi (e + 1) = 2 * 2 powi e" by (rule two_powi_Suc)
    have p2: "(2::real) powi (e - 1) = 2 powi e / 2" by (rule two_powi_pred)
    have "a < 2 powi (e - 1 + 1)" using e(3) p1 by simp
    moreover have "2 powi (e - 1) \<le> a" if "- int (Suc n) < e - 1"
    proof -
      from that e(4) have "2 powi e \<le> a * 2" by simp
      with p2 show ?thesis by linarith
    qed
    ultimately show ?thesis using e(1,2) unfolding r by simp
  qed
qed

lemma binexp_bounds:
  assumes "0 \<le> a"
  shows "- 1022 \<le> binexp a \<and> binexp a \<le> 1023 \<and>
         (- 1022 < binexp a \<longrightarrow> 2 powi binexp a \<le> a) \<and>
         (binexp a < 1023 \<longrightarrow> a < 2 powi (binexp a + 1))"
proof (cases "1 \<le> a")
  case True
  with binexp_up_bounds [of a 1023] show ?thesis by (simp add: binexp_def)
next
  case False
  with assms binexp_down_bounds [of a 1022] show ?thesis by (simp add: binexp_def)
qed

lemma binexp_unique:
  assumes "0 \<le> a" and "- 1022 \<le> e" and "e \<le> 1023"
    and lo: "- 1022 < e \<Longrightarrow> 2 powi e \<le> a"
    and hi: "e < 1023 \<Longrightarrow> a < 2 powi (e + 1)"
  shows "binexp a = e"
proof (rule ccontr)
  assume ne: "binexp a \<noteq> e"
  note b = binexp_bounds [OF assms(1)]
  show False
  proof (cases "binexp a < e")
    case True
    then have "a < 2 powi (binexp a + 1)" and "2 powi e \<le> a" using b assms lo by auto
    moreover have "(2::real) powi (binexp a + 1) \<le> 2 powi e"
      using True by (intro power_int_increasing) simp_all
    ultimately show False by simp
  next
    case False
    with ne have gt: "e < binexp a" by simp
    then have "a < 2 powi (e + 1)" and "2 powi binexp a \<le> a" using b assms hi by auto
    moreover have "(2::real) powi (e + 1) \<le> 2 powi binexp a"
      using gt by (intro power_int_increasing) simp_all
    ultimately show False by simp
  qed
qed

lemma round_half_even_ge:
  assumes "of_int n \<le> y"
  shows "n \<le> round_half_even y"
proof -
  from assms have "n \<le> \<lfloor>y\<rfloor>" by (simp add: le_floor_iff)
  then show ?thesis using round_half_even_floor [of y] by auto
qed

lemma round_half_even_abs_le:
  assumes "\<bar>z\<bar> \<le> of_int n"
  shows "\<bar>round_half_even z\<bar> \<le> n"
proof -
  from assms have "z \<le> of_int n" and "of_int (- n) \<le> z" by (simp_all add: abs_le_iff)
  then have "round_half_even z \<le> n" and "- n \<le> round_half_even z"
    by (simp_all only: round_half_even_le round_half_even_ge)
  then show ?thesis by simp
qed

lemma round_half_even_abs_ge:
  assumes "of_int n \<le> \<bar>z\<bar>"
  shows "n \<le> \<bar>round_half_even z\<bar>"
proof (cases "0 \<le> z")
  case True
  with assms have "of_int n \<le> z" by simp
  then have "n \<le> round_half_even z" by (rule round_half_even_ge)
  then show ?thesis by simp
next
  case False
  with assms have "z \<le> of_int (- n)" by simp
  then have "round_half_even z \<le> - n" by (rule round_half_even_le)
  then show ?thesis by simp
qed

lemma two_powi_52: "(2::real) ^ 52 * 2 powi (e - 52) = 2 powi e"
proof -
  have "(2::real) powi 52 * 2 powi (e - 52) = 2 powi (52 + (e - 52))"
    by (subst power_int_add) simp_all
  then show ?thesis by simp
qed

lemma binary64_of_ulps:
  assumes "binexp \<bar>of_int m * 2 powi (e - 52)\<bar> = e"
  shows "binary64 (of_int m * 2 powi (e - 52)) = of_int m * 2 powi (e - 52)"
  by (simp add: binary64_def assms Let_def round_half_even_of_int)

lemma binary64_idempotent: "binary64 (binary64 x) = binary64 x"
proof -
  define e where "e = binexp \<bar>x\<bar>"
  define u :: real where "u = 2 powi (e - 52)"
  define m where "m = round_half_even (x / u)"
  define y where "y = of_int m * u"
  define P :: int where "P = 2 ^ 52"
  have u: "0 < u" by (simp add: u_def)
  have y: "binary64 x = y" by (simp add: binary64_def y_def m_def u_def e_def Let_def)
  have absy: "\<bar>y\<bar> = \<bar>of_int m\<bar> * u" using u by (simp add: y_def abs_mult)
  have absxu: "\<bar>x / u\<bar> = \<bar>x\<bar> / u" using u by simp
  have Pu: "of_int P * u = 2 powi e"
    using two_powi_52 [of e] by (simp add: P_def u_def)
  have P2u: "of_int (2 * P) * u = 2 powi (e + 1)"
    using Pu two_powi_Suc [of e] by simp
  have u2: "2 powi (e + 1 - 52) = 2 * u"
  proof -
    have "e + 1 - 52 = (e - 52) + 1" by simp
    then show ?thesis by (simp only: two_powi_Suc u_def)
  qed
  note b = binexp_bounds [of "\<bar>x\<bar>", folded e_def]
  have range: "- 1022 \<le> e" "e \<le> 1023" using b by simp_all
  have big: "P \<le> \<bar>m\<bar>" if "- 1022 < e"
  proof -
    from that b have "of_int P * u \<le> \<bar>x\<bar>" by (simp only: Pu)
    then have "of_int P \<le> \<bar>x / u\<bar>" using u by (simp only: absxu pos_le_divide_eq)
    then show ?thesis unfolding m_def by (rule round_half_even_abs_ge)
  qed
  have small: "\<bar>m\<bar> \<le> 2 * P" if "e < 1023"
  proof -
    from that b have "\<bar>x\<bar> \<le> of_int (2 * P) * u" by (simp only: P2u) simp
    then have "\<bar>x / u\<bar> \<le> of_int (2 * P)" using u by (simp only: absxu pos_divide_le_eq)
    then show ?thesis unfolding m_def by (rule round_half_even_abs_le)
  qed
  show ?thesis
  proof (cases "\<bar>m\<bar> < 2 * P \<or> e = 1023")
    case True
    have "binexp \<bar>y\<bar> = e"
    proof (rule binexp_unique)
      show "0 \<le> \<bar>y\<bar>" "- 1022 \<le> e" "e \<le> 1023" using range by simp_all
    next
      assume "- 1022 < e"
      then have "(of_int P :: real) \<le> of_int \<bar>m\<bar>" using big by (simp only: of_int_le_iff)
      then have "of_int P * u \<le> \<bar>of_int m\<bar> * u" using u by (simp add: mult_right_mono)
      then show "2 powi e \<le> \<bar>y\<bar>" by (simp only: absy Pu)
    next
      assume "e < 1023"
      with True have "\<bar>m\<bar> < 2 * P" by simp
      then have "(of_int \<bar>m\<bar> :: real) < of_int (2 * P)" by (simp only: of_int_less_iff)
      then have "\<bar>of_int m\<bar> * u < of_int (2 * P) * u"
        using u by (simp add: mult_strict_right_mono)
      then show "\<bar>y\<bar> < 2 powi (e + 1)" by (simp only: absy P2u)
    qed
    then have "binary64 y = y" unfolding y_def u_def by (rule binary64_of_ulps)
    then show ?thesis by (simp only: y)
  next
    case False
    with range have e: "e < 1023" and "2 * P \<le> \<bar>m\<bar>" by simp_all
    with small have m: "\<bar>m\<bar> = 2 * P" by simp
    then have "(of_int \<bar>m\<bar> :: real) = of_int (2 * P)" by (simp only:)
    then have "\<bar>of_int m\<bar> * u = of_int (2 * P) * u" by simp
    then have y2: "\<bar>y\<bar> = 2 powi (e + 1)" by (simp only: absy P2u)
    have e1: "binexp \<bar>y\<bar> = e + 1"
    proof (rule binexp_unique)
      show "0 \<le> \<bar>y\<bar>" "- 1022 \<le> e + 1" "e + 1 \<le> 1023" using range e by simp_all
    next
      show "2 powi (e + 1) \<le> \<bar>y\<bar>" by (simp only: y2 order_refl)
    next
      have "(2::real) powi (e + 1) < 2 powi (e + 1 + 1)"
        by (intro power_int_strict_increasing) simp_all
      then show "\<bar>y\<bar> < 2 powi (e + 1 + 1)" by (simp only: y2)
    qed
    define k where "k = (if 0 \<le> m then P else - P)"
    have k: "m = 2 * k" using m by (simp add: k_def abs_if split: if_splits)
    have yk: "y = of_int k * 2 powi (e + 1 - 52)"
      by (simp only: u2) (simp add: y_def k)
    from e1 have "binexp \<bar>of_int k * 2 powi (e + 1 - 52)\<bar> = e + 1" by (simp only: yk)
    then have "binary64 (of_int k * 2 powi (e + 1 - 52)) = of_int k * 2 powi (e + 1 - 52)"
      by (rule binary64_of_ulps)
    then have "binary64 y = y" by (simp only: yk)
    then show ?thesis by (simp only: y)
  qed
qed

text \<open>
  The rounding error is at most half a unit in the last place. With it, \<^verbatim>\<open>math.pi\<close> is
  within \<open>2 ^ -52\<close> of \<open>pi\<close>, and the cosine there, rounded, is exactly \<open>-1\<close>:
  \<^verbatim>\<open>math.cos(math.pi) == -1.0\<close>.
\<close>

lemma round_half_even_down:
  "y - of_int \<lfloor>y\<rfloor> < 1 / 2 \<Longrightarrow> round_half_even y = \<lfloor>y\<rfloor>"
  by (simp add: round_half_even_def Let_def)

lemma round_half_even_error: "\<bar>of_int (round_half_even y) - y\<bar> \<le> 1 / 2"
proof -
  define r where "r = y - of_int \<lfloor>y\<rfloor>"
  have r: "0 \<le> r" "r < 1" unfolding r_def by linarith+
  have "round_half_even y = \<lfloor>y\<rfloor> \<and> r \<le> 1 / 2 \<or>
        round_half_even y = \<lfloor>y\<rfloor> + 1 \<and> 1 / 2 \<le> r"
    by (auto simp: round_half_even_def Let_def r_def)
  then show ?thesis
  proof
    assume a: "round_half_even y = \<lfloor>y\<rfloor> \<and> r \<le> 1 / 2"
    then have "of_int (round_half_even y) - y = - r" by (simp add: r_def)
    with a r show ?thesis by simp
  next
    assume a: "round_half_even y = \<lfloor>y\<rfloor> + 1 \<and> 1 / 2 \<le> r"
    then have "of_int (round_half_even y) - y = 1 - r" by (simp add: r_def)
    with a r show ?thesis by simp
  qed
qed

lemma binary64_error: "\<bar>binary64 x - x\<bar> \<le> 2 powi (binexp \<bar>x\<bar> - 53)"
proof -
  define u :: real where "u = 2 powi (binexp \<bar>x\<bar> - 52)"
  have u: "0 < u" by (simp add: u_def)
  have half: "u / 2 = 2 powi (binexp \<bar>x\<bar> - 53)"
  proof -
    have "(2::real) powi (binexp \<bar>x\<bar> - 52) = 2 powi ((binexp \<bar>x\<bar> - 53) + 1)" by simp
    also have "\<dots> = 2 powi (binexp \<bar>x\<bar> - 53) * 2" by (subst power_int_add) simp_all
    finally show ?thesis by (simp add: u_def)
  qed
  have "binary64 x - x = (of_int (round_half_even (x / u)) - x / u) * u"
    using u by (simp add: binary64_def u_def Let_def field_simps)
  then have "\<bar>binary64 x - x\<bar> = \<bar>of_int (round_half_even (x / u)) - x / u\<bar> * u"
    using u by (simp add: abs_mult)
  also have "\<dots> \<le> (1 / 2) * u"
    using u round_half_even_error [of "x / u"] by (intro mult_right_mono) simp_all
  finally show ?thesis using half by simp
qed

lemma binexp_pi: "binexp pi = 1"
  using pi_ge_two pi_less_4 by (simp add: binexp_def binexp_up_numeral)

lemma binary64_pi_error: "\<bar>binary64 pi - pi\<bar> \<le> 1 / 2 ^ 52"
  using binary64_error [of pi] by (simp add: binexp_pi power_int_minus)

lemma cos_near_pi:
  assumes "\<bar>x - pi\<bar> \<le> d"
  shows "- 1 \<le> cos x \<and> cos x \<le> - 1 + d\<^sup>2 / 2"
proof -
  define t where "t = x - pi"
  have "cos x = - cos t" by (simp add: t_def)
  moreover have "cos t = 1 - 2 * (sin (t / 2))\<^sup>2"
    using cos_double_sin [of "t / 2"] by simp
  moreover have "(sin (t / 2))\<^sup>2 \<le> (t / 2)\<^sup>2"
    using abs_sin_x_le_abs_x [of "t / 2"] by (simp only: abs_le_square_iff)
  moreover have "t\<^sup>2 \<le> d\<^sup>2"
  proof -
    have "\<bar>t\<bar> \<le> \<bar>d\<bar>" using assms by (simp add: t_def)
    then show ?thesis by (simp only: abs_le_square_iff)
  qed
  moreover have "(t / 2)\<^sup>2 = t\<^sup>2 / 4" by (simp add: power_divide)
  moreover have "0 \<le> (sin (t / 2))\<^sup>2" by simp
  ultimately show ?thesis by linarith
qed

lemma binary64_near_minus_one:
  assumes "- 1 \<le> y" and "y < - 1 + 1 / 2 ^ 54"
  shows "binary64 y = - 1"
proof (cases "y = - 1")
  case True
  then show ?thesis by (simp add: binary64_eval)
next
  case False
  with assms have a: "\<bar>y\<bar> < 1" "1 / 2 \<le> \<bar>y\<bar>" by (simp_all add: abs_if)
  then have e: "binexp \<bar>y\<bar> = - 1" by (simp add: binexp_def binexp_down_numeral)
  define z where "z = y / 2 powi (- 53)"
  have z: "z = y * 9007199254740992" by (simp add: z_def power_int_minus)
  have lo: "- 9007199254740992 \<le> z" using assms(1) by (simp add: z)
  have hi: "z < - 9007199254740992 + 1 / 2" using assms(2) by (simp add: z)
  from lo hi have f: "\<lfloor>z\<rfloor> = - 9007199254740992" by (simp add: floor_eq_iff)
  have "round_half_even z = \<lfloor>z\<rfloor>"
    using hi by (intro round_half_even_down) (simp add: f)
  then have "round_half_even z = - 9007199254740992" by (simp only: f)
  then have "binary64 y = of_int (- 9007199254740992) * 2 powi (- 53)"
    by (simp only: binary64_def e Let_def z_def) simp
  then show ?thesis by (simp add: power_int_minus)
qed

lemma mcos_binary64_pi: "mcos binary64 (binary64 (mpi binary64 * 1)) = - 1"
proof -
  have "- 1 \<le> cos (binary64 pi) \<and> cos (binary64 pi) \<le> - 1 + (1 / 2 ^ 52)\<^sup>2 / 2"
    by (rule cos_near_pi [OF binary64_pi_error])
  moreover have "(1 / 2 ^ 52)\<^sup>2 / 2 < (1 / 2 ^ 54 :: real)"
    by (simp add: power2_eq_square)
  ultimately have "- 1 \<le> cos (binary64 pi)" and "cos (binary64 pi) < - 1 + 1 / 2 ^ 54"
    by linarith+
  then have "binary64 (cos (binary64 pi)) = - 1"
    by (rule binary64_near_minus_one)
  then show ?thesis by (simp add: mcos_def mpi_def binary64_idempotent)
qed

section \<open>Properties of the learning-rate schedule\<close>

text \<open>
  C10. The schedule is not total over its configuration space: with
  \<open>warmup_iters = max_iters\<close>, the call at \<open>iter = warmup_iters\<close> passes both guards, reaches
  the decay branch and divides by \<open>max_iters - warmup_iters = 0\<close>: it raises
  \<^verbatim>\<open>ZeroDivisionError\<close>; it neither returns a rate nor fails the assertion. This holds
  whatever the rounding.
\<close>

theorem get_lr_zero_division:
  "warmup_iters T = max_iters T \<Longrightarrow> p_get_lr fl T (warmup_iters T) = Inl ZeroDivisionError"
  by (simp add: p_get_lr_def)

theorem get_lr_zero_division_witness:
  "warmup_iters ((scenario binary64)\<lparr>warmup_iters := 10\<rparr>) =
     max_iters ((scenario binary64)\<lparr>warmup_iters := 10\<rparr>) \<and>
   p_get_lr binary64 ((scenario binary64)\<lparr>warmup_iters := 10\<rparr>) 10 = Inl ZeroDivisionError"
  using get_lr_zero_division [of "(scenario binary64)\<lparr>warmup_iters := 10\<rparr>" binary64]
  by (simp add: scenario_def default_trainer_def)

lemma scenario_binary64_rate_0: "p_get_lr binary64 (scenario binary64) 0 = Inr (binary64 (5 / 100))"
  by (simp add: p_get_lr_def scenario_def default_trainer_def
      binary64_1 binary64_2 binary64_tenth binary64_twentieth)
     (simp add: binary64_eval)

lemma scenario_binary64_rate_1: "p_get_lr binary64 (scenario binary64) 1 = Inr (binary64 (1 / 10))"
  by (simp add: p_get_lr_def scenario_def default_trainer_def
      binary64_2 binary64_tenth)
     (simp add: binary64_eval)

lemma scenario_binary64_rate_2: "p_get_lr binary64 (scenario binary64) 2 = Inr (binary64 (1 / 10))"
  by (simp add: p_get_lr_def decay_ratio_def mcos_def mpi_def scenario_def
      default_trainer_def binary64_0 binary64_1 binary64_2 binary64_half binary64_tenth
      binary64_hundredth)
     (simp add: binary64_eval)

lemma scenario_binary64_rate_10: "p_get_lr binary64 (scenario binary64) 10 = Inr (binary64 (1 / 100))"
proof -
  have r: "decay_ratio binary64 (scenario binary64) 10 = 1"
    by (simp add: decay_ratio_def scenario_def default_trainer_def binary64_1)
  have "p_get_lr binary64 (scenario binary64) 10 =
          Inr (binary64 (min_lr (scenario binary64) + binary64 (binary64 (1 / 2 * binary64 (1 + - 1)) *
                 binary64 (max_lr (scenario binary64) - min_lr (scenario binary64)))))"
    using mcos_binary64_pi
    by (simp add: p_get_lr_def r binary64_1 binary64_half Let_def)
       (simp add: scenario_def default_trainer_def)
  then show ?thesis
    by (simp add: binary64_0 scenario_def default_trainer_def binary64_hundredth)
       (simp add: binary64_eval)
qed

text \<open>
  C8. The configuration \<open>warmup_iters = 2\<close>, \<open>max_iters = 10\<close>, \<open>max_lr = 0.1\<close>, \<open>min_lr = 0.01\<close>
  gives the rates \<open>0.05\<close>, \<open>0.1\<close>, \<open>0.1\<close> and \<open>0.01\<close> at the iterations \<open>0\<close>, \<open>1\<close>, \<open>2\<close> and \<open>10\<close>:
  in exact arithmetic, and in double arithmetic, where each rate is the double that the
  literal denotes.
\<close>

theorem scenario_rates:
  "p_get_lr exact (scenario exact) 0 = Inr (5 / 100) \<and>
   p_get_lr exact (scenario exact) 1 = Inr (1 / 10) \<and>
   p_get_lr exact (scenario exact) 2 = Inr (1 / 10) \<and>
   p_get_lr exact (scenario exact) 10 = Inr (1 / 100) \<and>
   p_get_lr binary64 (scenario binary64) 0 = Inr (binary64 (5 / 100)) \<and>
   p_get_lr binary64 (scenario binary64) 1 = Inr (binary64 (1 / 10)) \<and>
   p_get_lr binary64 (scenario binary64) 2 = Inr (binary64 (1 / 10)) \<and>
   p_get_lr binary64 (scenario binary64) 10 = Inr (binary64 (1 / 100))"
proof -
  have "p_get_lr exact (scenario exact) 0 = Inr (5 / 100) \<and>
        p_get_lr exact (scenario exact) 1 = Inr (1 / 10) \<and>
        p_get_lr exact (scenario exact) 2 = Inr (1 / 10) \<and>
        p_get_lr exact (scenario exact) 10 = Inr (1 / 100)"
    by (simp add: p_get_lr_def decay_ratio_def mcos_def mpi_def exact_def scenario_def
        default_trainer_def)
  then show ?thesis
    by (simp only: scenario_binary64_rate_0 scenario_binary64_rate_1
        scenario_binary64_rate_2 scenario_binary64_rate_10 simp_thms)
qed




text \<open>
  C7. With the constructor's defaults, in double arithmetic, the rate at
  \<open>iter = warmup_iters = 715\<close> is \<open>0.006 + (0.0006 - 0.006)\<close> rounded twice, which is the
  double below \<open>max_lr = 0.0006\<close>: the claim's "exactly \<open>max_lr\<close>" fails there.
\<close>

theorem boundary_rate_counterexample:
  "warmup_iters (default_trainer binary64) < max_iters (default_trainer binary64) \<and>
   p_get_lr binary64 (default_trainer binary64) (warmup_iters (default_trainer binary64))
     \<noteq> Inr (max_lr (default_trainer binary64))"
  by (simp add: p_get_lr_def decay_ratio_def default_trainer_def mcos_def mpi_def
      binary64_0 binary64_1 binary64_2 binary64_half default_max_lr default_min_lr)
     (simp add: binary64_eval)

text \<open>
  C7, amended. For every configuration with \<open>warmup_iters < max_iters\<close>, the schedule at
  \<open>iter = warmup_iters\<close> takes the decay branch with ratio \<open>0\<close> and coefficient \<open>1\<close>, and returns
  \<open>min_lr + 1 * (max_lr - min_lr)\<close>: exactly \<open>max_lr\<close> in exact arithmetic, and in double
  arithmetic the rounded sum of \<open>min_lr\<close> and the rounded difference \<open>max_lr - min_lr\<close>, which
  is \<open>max_lr\<close> up to rounding.
\<close>

theorem boundary_rate:
  assumes "warmup_iters T < max_iters T"
  shows "decay_ratio exact T (warmup_iters T) = 0 \<and>
         p_get_lr exact T (warmup_iters T) = Inr (max_lr T) \<and>
         decay_ratio binary64 T (warmup_iters T) = 0 \<and>
         p_get_lr binary64 T (warmup_iters T) =
           Inr (binary64 (min_lr T + binary64 (max_lr T - min_lr T)))"
proof -
  have e: "decay_ratio exact T (warmup_iters T) = 0"
    by (simp add: decay_ratio_def exact_def)
  have b: "decay_ratio binary64 T (warmup_iters T) = 0"
    by (simp add: decay_ratio_def binary64_0)
  have "p_get_lr exact T (warmup_iters T) = Inr (max_lr T)"
    using assms by (simp add: p_get_lr_def e mcos_def mpi_def) (simp add: exact_def)
  moreover have "p_get_lr binary64 T (warmup_iters T) =
           Inr (binary64 (min_lr T + binary64 (max_lr T - min_lr T)))"
    using assms
    by (simp add: p_get_lr_def b mcos_def mpi_def binary64_0 binary64_1 binary64_2
        binary64_half binary64_idempotent)
  ultimately show ?thesis using e b by simp
qed

theorem boundary_rate_witness:
  "warmup_iters (scenario binary64) < max_iters (scenario binary64) \<and>
   p_get_lr exact (scenario binary64) 2 = Inr (max_lr (scenario binary64)) \<and>
   p_get_lr binary64 (scenario binary64) 2 = Inr (max_lr (scenario binary64))"
  using boundary_rate [of "scenario binary64"]
  by (simp add: scenario_def default_trainer_def binary64_tenth binary64_hundredth)
     (simp add: binary64_eval)

text \<open>
  C9. For every configuration with \<open>warmup_iters < max_iters\<close> and every int \<open>iter\<close>, in
  exact and in double arithmetic: where the decay branch is reached
  (\<open>warmup_iters \<le> iter \<le> max_iters\<close>) the decay ratio lies in \<open>[0, 1]\<close>, and the schedule
  never raises the \<^verbatim>\<open>AssertionError\<close> that guards it.
\<close>

theorem decay_ratio_in_range:
  assumes "fl = exact \<or> fl = binary64" and "warmup_iters T < max_iters T"
  shows "(warmup_iters T \<le> iter \<and> iter \<le> max_iters T \<longrightarrow>
           0 \<le> decay_ratio fl T iter \<and> decay_ratio fl T iter \<le> 1) \<and>
         p_get_lr fl T iter \<noteq> Inl AssertionError"
proof -
  have unit: "0 \<le> fl x \<and> fl x \<le> 1" if "0 \<le> x" "x \<le> 1" for x
    using assms(1) that binary64_unit_interval [of x] by (auto simp: exact_def)
  have ratio: "0 \<le> decay_ratio fl T iter \<and> decay_ratio fl T iter \<le> 1"
    if "warmup_iters T \<le> iter" "iter \<le> max_iters T"
    unfolding decay_ratio_def using that assms(2) by (intro unit) simp_all
  then show ?thesis
    by (auto simp: p_get_lr_def Let_def)
qed

theorem decay_ratio_in_range_witness:
  "warmup_iters (scenario binary64) < max_iters (scenario binary64) \<and>
   warmup_iters (scenario binary64) \<le> 5 \<and> 5 \<le> max_iters (scenario binary64) \<and>
   0 \<le> decay_ratio binary64 (scenario binary64) 5 \<and>
   decay_ratio binary64 (scenario binary64) 5 \<le> 1 \<and>
   p_get_lr binary64 (scenario binary64) 5 \<noteq> Inl AssertionError"
  using decay_ratio_in_range [of binary64 "scenario binary64" 5]
  by (simp add: scenario_def default_trainer_def)

section \<open>Properties of the optimizer\<close>

lemma mset_split_by_rank:
  "mset (map snd (filter (\<lambda>(n, p). 2 \<le> tensor_dim p) xs)) +
   mset (map snd (filter (\<lambda>(n, p). tensor_dim p < 2) xs)) = mset (map snd xs)"
  by (induction xs) auto

lemma dict_setitem_fresh:
  "k \<notin> fst ` set d \<Longrightarrow> dict_setitem d k v = d @ [(k, v)]"
  by (induction d) auto

lemma foldl_dict_setitem_distinct:
  "distinct (map fst (d @ xs)) \<Longrightarrow>
   foldl (\<lambda>d (k, v). dict_setitem d k v) d xs = d @ xs"
proof (induction xs arbitrary: d)
  case Nil
  show ?case by simp
next
  case (Cons x xs)
  obtain k v where x: "x = (k, v)" by (cases x)
  from Cons.prems have fresh: "k \<notin> fst ` set d" by (auto simp: x)
  from Cons.prems have "distinct (map fst ((d @ [(k, v)]) @ xs))" by (simp add: x)
  from Cons.IH [OF this] show ?case by (simp add: x dict_setitem_fresh [OF fresh])
qed

lemma dict_of_distinct: "distinct (map fst xs) \<Longrightarrow> dict_of xs = xs"
  using foldl_dict_setitem_distinct [of "[]" xs] by (simp add: dict_of_def)

text \<open>
  C5. When the raw model is present, \<^verbatim>\<open>_get_optimizer\<close> returns an optimizer with exactly two
  parameter groups: the first with the given weight decay, the second with weight decay \<open>0\<close>.
  Every parameter of the first tracks gradients and has rank at least \<open>2\<close>, every parameter of
  the second tracks gradients and has rank below \<open>2\<close>; the groups are disjoint; every
  gradient-tracking parameter is in the first group when its rank is at least \<open>2\<close> and in the
  second otherwise; and together the groups hold each gradient-tracking parameter of
  \<^verbatim>\<open>named_parameters()\<close> exactly as often as the parameter dict does (once, when the names
  are distinct).
\<close>

theorem optimizer_groups_partition:
  assumes "raw_model T = Some named_parameters"
  shows "\<exists>decay nodecay opt.
     p_get_optimizer fl fa T wd learning_rate = Inr opt \<and>
     param_groups opt =
       [\<lparr>params = decay, weight_decay = wd, lr = learning_rate\<rparr>,
        \<lparr>params = nodecay, weight_decay = 0, lr = learning_rate\<rparr>] \<and>
     (\<forall>p \<in> set decay. requires_grad p \<and> 2 \<le> tensor_dim p) \<and>
     (\<forall>p \<in> set nodecay. requires_grad p \<and> tensor_dim p < 2) \<and>
     set decay \<inter> set nodecay = {} \<and>
     (\<forall>p \<in> set (filter requires_grad (map snd (dict_of named_parameters))).
        (2 \<le> tensor_dim p \<longrightarrow> p \<in> set decay) \<and> (tensor_dim p < 2 \<longrightarrow> p \<in> set nodecay)) \<and>
     mset decay + mset nodecay =
       mset (filter requires_grad (map snd (dict_of named_parameters))) \<and>
     (distinct (map fst named_parameters) \<longrightarrow>
        mset decay + mset nodecay = mset (filter requires_grad (map snd named_parameters)))"
proof -
  define items where "items = filter (\<lambda>(pn, p). requires_grad p) (dict_of named_parameters)"
  define decay where "decay = map snd (filter (\<lambda>(n, p). 2 \<le> tensor_dim p) items)"
  define nodecay where "nodecay = map snd (filter (\<lambda>(n, p). tensor_dim p < 2) items)"
  have items: "map snd items = filter requires_grad (map snd (dict_of named_parameters))"
    by (simp add: items_def filter_map comp_def case_prod_unfold)
  have opt: "p_get_optimizer fl fa T wd learning_rate =
         Inr \<lparr>param_groups =
                [\<lparr>params = decay, weight_decay = wd, lr = learning_rate\<rparr>,
                 \<lparr>params = nodecay, weight_decay = 0, lr = learning_rate\<rparr>],
              betas = (fl (9 / 10), fl (95 / 100)), eps = fl (1 / 10 ^ 8),
              fused = (fa \<and> device_type T = ''cuda'')\<rparr>"
    using assms by (simp add: p_get_optimizer_def Let_def items_def decay_def nodecay_def)
  have d: "\<forall>p \<in> set decay. requires_grad p \<and> 2 \<le> tensor_dim p"
    by (auto simp: decay_def items_def)
  have n: "\<forall>p \<in> set nodecay. requires_grad p \<and> tensor_dim p < 2"
    by (auto simp: nodecay_def items_def)
  from d n have disj: "set decay \<inter> set nodecay = {}" by fastforce
  have part: "mset decay + mset nodecay =
                mset (filter requires_grad (map snd (dict_of named_parameters)))"
    unfolding decay_def nodecay_def by (simp only: mset_split_by_rank items)
  have "set_mset (mset decay + mset nodecay) =
          set (filter requires_grad (map snd (dict_of named_parameters)))"
    by (simp only: part set_mset_mset)
  then have cover: "set decay \<union> set nodecay =
                      set (filter requires_grad (map snd (dict_of named_parameters)))"
    by simp
  have all: "\<forall>p \<in> set (filter requires_grad (map snd (dict_of named_parameters))).
               (2 \<le> tensor_dim p \<longrightarrow> p \<in> set decay) \<and> (tensor_dim p < 2 \<longrightarrow> p \<in> set nodecay)"
    unfolding cover [symmetric] using d n by fastforce
  have names: "distinct (map fst named_parameters) \<longrightarrow>
                 mset decay + mset nodecay = mset (filter requires_grad (map snd named_parameters))"
    using part by (simp add: dict_of_distinct)
  show ?thesis
    apply (rule exI [of _ decay])
    apply (rule exI [of _ nodecay])
    apply (rule exI)
    apply (intro conjI)
           apply (rule opt)
          apply simp
         apply (rule d)
        apply (rule n)
       apply (rule disj)
      apply (rule all)
     apply (rule part)
    apply (rule names)
    done
qed

theorem optimizer_groups_partition_witness:
  "raw_model model_trainer = Some example_model \<and>
   (\<exists>opt. p_get_optimizer exact True model_trainer (1 / 10) (6 / 10 ^ 4) = Inr opt \<and>
      param_groups opt =
        [\<lparr>params = [\<lparr>requires_grad = True, shape = [8, 4]\<rparr>],
          weight_decay = 1 / 10, lr = 6 / 10 ^ 4\<rparr>,
         \<lparr>params = [\<lparr>requires_grad = True, shape = [4]\<rparr>,
                    \<lparr>requires_grad = True, shape = [4]\<rparr>],
          weight_decay = 0, lr = 6 / 10 ^ 4\<rparr>])"
  using optimizer_groups_partition
    [of model_trainer example_model exact True "1 / 10" "6 / 10 ^ 4"]
  by (simp add: model_trainer_def scenario_def default_trainer_def example_model_def
      p_get_optimizer_def dict_of_def tensor_dim_def exact_def)

section \<open>Properties of the accumulation phase\<close>

lemma sync_writes_append: "sync_writes (xs @ ys) = sync_writes xs @ sync_writes ys"
  by (induction xs rule: sync_writes.induct) simp_all


lemma micro_step_events:
  "events (micro_step fl E T s (int k)) = events s @ micro_events fl E T (n_forward s - k) k"
  if "k \<le> n_forward s"
  using that by (simp add: micro_step_def micro_events_def emit_def Let_def)

lemma micro_step_n_forward: "n_forward (micro_step fl E T s k) = Suc (n_forward s)"
  by (simp add: micro_step_def emit_def Let_def)


lemma py_range_int: "py_range (int n) = map int [0..<n]"
  by (simp only: py_range_def nat_int)

lemma micro_loop_snoc:
  "micro_loop fl E T s (py_range (int (Suc n))) =
     micro_step fl E T (micro_loop fl E T s (py_range (int n))) (int n)"
  by (simp only: py_range_int micro_loop_def) simp

lemma micro_loop_n_forward:
  "n_forward (micro_loop fl E T s (py_range (int n))) = n_forward s + n"
proof (induction n)
  case 0
  show ?case by (simp add: micro_loop_def py_range_def)
next
  case (Suc n)
  then show ?case by (simp only: micro_loop_snoc micro_step_n_forward add_Suc_right)
qed

lemma micro_loop_events:
  "events (micro_loop fl E T s (py_range (int n))) =
     events s @ concat (map (micro_events fl E T (n_forward s)) [0..<n])"
proof (induction n)
  case 0
  show ?case by (simp add: micro_loop_def py_range_def)
next
  case (Suc n)
  have "events (micro_loop fl E T s (py_range (int (Suc n)))) =
          events (micro_loop fl E T s (py_range (int n))) @ micro_events fl E T (n_forward s) n"
    by (simp only: micro_loop_snoc)
       (simp add: micro_step_events micro_loop_n_forward)
  with Suc show ?case by simp
qed


lemma accumulation_events:
  "events (accumulation fl E T s) =
     events s @ TrainMode # ZeroGrad #
       concat (map (micro_events fl E T (n_forward s)) [0..<nat (grad_accum_iters T)])"
proof -
  have "py_range (grad_accum_iters T) = py_range (int (nat (grad_accum_iters T)))"
    by (simp add: py_range_def)
  then show ?thesis
    by (simp only: accumulation_def micro_loop_events) (simp add: emit_def)
qed

lemma sync_writes_micro_events:
  "sync_writes (micro_events fl E T n0 k) =
     (if use_ddp T then [int k = grad_accum_iters T - 1] else [])"
  by (simp add: micro_events_def)


lemma sync_writes_micro:
  "sync_writes (concat (map (micro_events fl E T n0) ks)) =
     (if use_ddp T then map (\<lambda>k. int k = grad_accum_iters T - 1) ks else [])"
  by (induction ks) (simp_all add: sync_writes_append sync_writes_micro_events)


lemma last_flag_only:
  "map (\<lambda>k. int k = int (Suc m) - 1) [0..<Suc m] = replicate m False @ [True]"
proof -
  have "map (\<lambda>k. int k = int (Suc m) - 1) [0..<m] = replicate m False"
    by (simp add: map_replicate_const [symmetric] del: replicate_Suc) (simp add: list_eq_iff_nth_eq)
  then show ?thesis by simp
qed

text \<open>
  C4. Under DDP, with \<open>grad_accum_iters \<ge> 1\<close>, the accumulation phase of an iteration writes
  the synchronisation flag once per micro-step: \<open>False\<close> on the micro-steps
  \<open>0, ..., grad_accum_iters - 2\<close> and \<open>True\<close> on the last one.
\<close>

theorem grad_sync_only_on_last_micro_step:
  assumes "use_ddp T" and "0 < grad_accum_iters T"
  shows "sync_writes (events (accumulation fl E T s)) =
           sync_writes (events s) @ replicate (nat (grad_accum_iters T - 1)) False @ [True]"
proof -
  define m where "m = nat (grad_accum_iters T - 1)"
  have g: "grad_accum_iters T = int (Suc m)" and n: "nat (grad_accum_iters T) = Suc m"
    using assms(2) by (simp_all add: m_def)
  have "sync_writes (events (accumulation fl E T s)) =
          sync_writes (events s) @ map (\<lambda>k. int k = grad_accum_iters T - 1) [0..<Suc m]"
    using assms(1)
    by (simp only: accumulation_events sync_writes_append n)
       (simp add: sync_writes_micro del: upt_Suc)
  also have "map (\<lambda>k. int k = grad_accum_iters T - 1) [0..<Suc m] = replicate m False @ [True]"
    by (simp only: g last_flag_only)
  finally show ?thesis by (simp only: m_def)
qed

lemma replicate_3: "replicate 3 x = [x, x, x]"
  by (simp add: numeral_eq_Suc)

theorem grad_sync_witness:
  "use_ddp ddp_trainer \<and> 0 < grad_accum_iters ddp_trainer \<and>
   sync_writes (events (accumulation exact example_env ddp_trainer example_state)) =
     [False, False, False, True]"
  using grad_sync_only_on_last_micro_step [of ddp_trainer exact example_env example_state]
  by (simp add: ddp_trainer_def scenario_def default_trainer_def example_state_def
      replicate_3)





section \<open>Where the training loop stops\<close>

text \<open>
  C1. \<^verbatim>\<open>train\<close> never enters its epoch loop: after building the optimizer (which raises
  \<^verbatim>\<open>AttributeError\<close> when there is no raw model) it iterates the int \<^verbatim>\<open>n_epochs\<close> itself,
  which raises \<^verbatim>\<open>TypeError\<close>. No epoch and no iteration runs, whatever \<open>n_epochs\<close> and
  \<open>max_iters\<close> are.
\<close>

theorem train_raises_before_first_epoch:
  "train fl E T = Inl (if raw_model T = None then AttributeError else TypeError)"
  by (simp add: train_def p_get_optimizer_def iter_int_def Let_def split: option.split)

lemma get_lr_not_a_member: "''get_lr'' \<notin> set trainer_members"
  by (simp add: trainer_members_def)

text \<open>
  C2. \<^verbatim>\<open>adjust_optimizer_lr\<close> calls \<^verbatim>\<open>self.get_lr\<close>, a name the class does not define (the
  schedule is \<^verbatim>\<open>_get_lr\<close>): it raises \<^verbatim>\<open>AttributeError\<close> before any parameter group is
  written, and so does every iteration of the training loop, before \<^verbatim>\<open>optimizer.step()\<close>.
\<close>

theorem adjust_optimizer_lr_raises:
  "adjust_optimizer_lr fl T optimizer iter = Inl AttributeError \<and>
   train_iteration fl E T e s iter = Inl AttributeError"
  by (simp add: adjust_optimizer_lr_def train_iteration_def self_call_def
      get_lr_not_a_member Let_def)

end
